theory Spec2Isabelle
  imports Complex_Main "HOL-Library.Word"
begin

section \<open>Python values handled by the endpoints\<close>

text \<open>
  The handlers of \<^verbatim>\<open>src/main.py\<close> work on the values that \<^verbatim>\<open>json.loads\<close> produces
  and on the dictionaries they build themselves. A Python \<^verbatim>\<open>float\<close> is a finite
  rational, a NaN or an infinity; only whether it is zero matters to the handlers.
\<close>

datatype pyfloat = Finite rat | NaN | PosInf | NegInf

datatype json =
    JNone
  | JBool bool
  | JInt int
  | JFloat pyfloat
  | JStr string
  | JList "json list"
  | JDict "(string \<times> json) list"

text \<open>Python truthiness, as used by \<^verbatim>\<open>not x\<close>.\<close>

fun truthy :: "json \<Rightarrow> bool" where
  "truthy JNone = False"
| "truthy (JBool b) = b"
| "truthy (JInt i) = (i \<noteq> 0)"
| "truthy (JFloat f) = (f \<noteq> Finite 0)"
| "truthy (JStr s) = (s \<noteq> [])"
| "truthy (JList xs) = (xs \<noteq> [])"
| "truthy (JDict kvs) = (kvs \<noteq> [])"

text \<open>\<^verbatim>\<open>isinstance(x, (int, float))\<close>: \<^verbatim>\<open>bool\<close> is a subclass of \<^verbatim>\<open>int\<close>.\<close>

fun isinstance_int_float :: "json \<Rightarrow> bool" where
  "isinstance_int_float (JBool b) = True"
| "isinstance_int_float (JInt i) = True"
| "isinstance_int_float (JFloat f) = True"
| "isinstance_int_float JNone = False"
| "isinstance_int_float (JStr s) = False"
| "isinstance_int_float (JList xs) = False"
| "isinstance_int_float (JDict kvs) = False"

text \<open>
  The exceptions the handlers raise or catch. \<open>PyException s\<close> is any exception that is
  neither of the two service errors; \<open>s\<close> is what \<^verbatim>\<open>str(e)\<close> returns for it.
\<close>

datatype exn = BadRequestError string | NotFoundError string | PyException string

fun str_exn :: "exn \<Rightarrow> string" where
  "str_exn (BadRequestError m) = m"
| "str_exn (NotFoundError m) = m"
| "str_exn (PyException s) = s"

text \<open>\<^verbatim>\<open>type(x).__name__\<close>, as it appears in the text of an \<^verbatim>\<open>AttributeError\<close>.\<close>

fun type_name :: "json \<Rightarrow> string" where
  "type_name JNone = ''NoneType''"
| "type_name (JBool b) = ''bool''"
| "type_name (JInt i) = ''int''"
| "type_name (JFloat f) = ''float''"
| "type_name (JStr s) = ''str''"
| "type_name (JList xs) = ''list''"
| "type_name (JDict kvs) = ''dict''"

text \<open>\<^verbatim>\<open>d.get(k)\<close> on a dictionary: the value, or \<^verbatim>\<open>None\<close> when the key is absent.\<close>

definition dict_get :: "(string \<times> json) list \<Rightarrow> string \<Rightarrow> json" where
  "dict_get d k = (case map_of d k of None \<Rightarrow> JNone | Some v \<Rightarrow> v)"

text \<open>
  \<^verbatim>\<open>x.get(k)\<close> on an arbitrary value: only a dictionary has the method, every other
  value raises \<^verbatim>\<open>AttributeError\<close>.
\<close>

fun py_get :: "json \<Rightarrow> string \<Rightarrow> exn + json" where
  "py_get (JDict d) k = Inr (dict_get d k)"
| "py_get v k =
     Inl (PyException ([CHR 0x27] @ type_name v @ [CHR 0x27] @ '' object has no attribute '' @
       [CHR 0x27] @ ''get'' @ [CHR 0x27]))"

section \<open>Identifier generation\<close>

text \<open>
  \<^verbatim>\<open>os.urandom(n)\<close> returns \<open>n\<close> bytes of the system's entropy; the entropy is an
  explicit argument, an unbounded supply of bytes.
\<close>

type_synonym entropy = "nat \<Rightarrow> 8 word"

definition os_urandom :: "nat \<Rightarrow> entropy \<Rightarrow> 8 word list" where
  "os_urandom n ent = map ent [0..<n]"

definition hex_digit :: "nat \<Rightarrow> char" where
  "hex_digit n = ''0123456789abcdef'' ! n"

definition hex_byte :: "8 word \<Rightarrow> string" where
  "hex_byte b = [hex_digit (unat b div 16), hex_digit (unat b mod 16)]"

text \<open>\<^verbatim>\<open>bytes.hex()\<close>: two lower-case hexadecimal digits per byte.\<close>

definition bytes_hex :: "8 word list \<Rightarrow> string" where
  "bytes_hex bs = concat (map hex_byte bs)"

definition digit_char :: "nat \<Rightarrow> char" where
  "digit_char n = ''0123456789'' ! n"

text \<open>The decimal text of a natural number, as an f-string formats it.\<close>

fun str_nat :: "nat \<Rightarrow> string" where
  "str_nat n = (if n < 10 then [digit_char n] else str_nat (n div 10) @ [digit_char (n mod 10)])"

declare str_nat.simps [simp del]

text \<open>\<^verbatim>\<open>f"prod_{len(os.urandom(4).hex())}"\<close>\<close>

definition new_product_id :: "entropy \<Rightarrow> string" where
  "new_product_id ent = ''prod_'' @ str_nat (length (bytes_hex (os_urandom 4 ent)))"

section \<open>The endpoints\<close>

text \<open>
  A handler returns a bare payload or a pair of a payload and a status code. The calls to
  the logger write to the log only and are left out.
\<close>

datatype ret = Payload json | PayloadStatus json nat

text \<open>
  The inbound event. \<open>json_body\<close> is what reading
  \<^verbatim>\<open>app.current_event.json_body\<close> gives for this event: the deserialized body, or the
  exception the deserializer raised. The deserializer is not part of the repository, so
  its outcome is part of the input.
\<close>

record event =
  httpMethod :: string
  path :: string
  json_body :: "exn + json"

definition list_products :: json where
  "list_products =
     JDict [(''products'', JList [
       JDict [(''id'', JStr ''prod1''), (''name'', JStr ''Laptop''), (''price'', JInt 1200)],
       JDict [(''id'', JStr ''prod2''), (''name'', JStr ''Mouse''), (''price'', JInt 25)],
       JDict [(''id'', JStr ''prod3''), (''name'', JStr ''Keyboard''), (''price'', JInt 75)]])]"

definition products_db :: "(string \<times> json) list" where
  "products_db =
     [(''prod1'', JDict [(''id'', JStr ''prod1''), (''name'', JStr ''Laptop''), (''price'', JInt 1200)]),
      (''prod2'', JDict [(''id'', JStr ''prod2''), (''name'', JStr ''Mouse''), (''price'', JInt 25)]),
      (''prod3'', JDict [(''id'', JStr ''prod3''), (''name'', JStr ''Keyboard''), (''price'', JInt 75)])]"

definition get_product :: "string \<Rightarrow> exn + json" where
  "get_product product_id =
     (let product = dict_get products_db product_id in
      if \<not> truthy product
      then Inl (NotFoundError (''Product with ID '' @ [CHR 0x27] @ product_id @ [CHR 0x27] @ '' not found.''))
      else Inr product)"

definition invalid_product_data :: string where
  "invalid_product_data =
     ''Invalid product data. '' @ [CHR 0x27] @ ''name'' @ [CHR 0x27] @ '' and '' @
     [CHR 0x27] @ ''price'' @ [CHR 0x27] @ '' are required.''"

text \<open>The body of the \<^verbatim>\<open>try\<close> block of \<^verbatim>\<open>create_product\<close>.\<close>

definition create_product_try :: "entropy \<Rightarrow> event \<Rightarrow> exn + ret" where
  "create_product_try ent ev =
     (case json_body ev of
        Inl e \<Rightarrow> Inl e
      | Inr body \<Rightarrow>
          (case py_get body ''name'' of
             Inl e \<Rightarrow> Inl e
           | Inr product_name \<Rightarrow>
               (case py_get body ''price'' of
                  Inl e \<Rightarrow> Inl e
                | Inr product_price \<Rightarrow>
                    if \<not> truthy product_name \<or> \<not> isinstance_int_float product_price
                    then Inl (BadRequestError invalid_product_data)
                    else
                      (let new_product =
                             JDict [(''id'', JStr (new_product_id ent)),
                                    (''name'', product_name),
                                    (''price'', product_price)]
                       in Inr (PayloadStatus
                                 (JDict [(''message'', JStr ''Product created successfully''),
                                         (''product'', new_product)])
                                 201)))))"

text \<open>
  The two \<^verbatim>\<open>except\<close> clauses: a \<^verbatim>\<open>BadRequestError\<close> is raised again as it is, any other
  exception becomes a \<^verbatim>\<open>BadRequestError\<close> that quotes its text.
\<close>

definition create_product :: "entropy \<Rightarrow> event \<Rightarrow> exn + ret" where
  "create_product ent ev =
     (case create_product_try ent ev of
        Inl (BadRequestError m) \<Rightarrow> Inl (BadRequestError m)
      | Inl e \<Rightarrow> Inl (BadRequestError (''An unexpected error occurred: '' @ str_exn e))
      | Inr r \<Rightarrow> Inr r)"

section \<open>The resolver\<close>

text \<open>
  \<^verbatim>\<open>src/main.py\<close> registers the three handlers with the resolver \<open>app\<close> and hands every
  event to \<^verbatim>\<open>app.resolve\<close>. The resolver class is imported; its code is not in the
  repository. Its parts are modelled from the specification, section by section.
\<close>

record envelope =
  statusCode :: nat
  headers :: "(string \<times> string) list"
  body :: json
  isBase64Encoded :: bool

text \<open>
  Modelled from the spec: the response envelope of section 3. The field \<open>body\<close> holds the
  JSON value whose serialization is the envelope's body string; the serializer is missing
  from the sources and is not modelled.
\<close>

definition json_envelope :: "nat \<Rightarrow> json \<Rightarrow> envelope" where
  "json_envelope status payload =
     \<lparr>statusCode = status,
      headers = [(''Content-Type'', ''application/json'')],
      body = payload,
      isBase64Encoded = False\<rparr>"

text \<open>
  Modelled from the spec: the response builder of section 4.5, missing from the sources.
  A bare payload gets status 200, a pair of payload and status code keeps its status.
\<close>

fun build_response :: "ret \<Rightarrow> envelope" where
  "build_response (Payload p) = json_envelope 200 p"
| "build_response (PayloadStatus p status) = json_envelope status p"

text \<open>
  Modelled from the spec: the fixed, generic message of an internal error (section 4.4).
  The specification fixes no wording.
\<close>

definition internal_message :: string where
  "internal_message = ''Internal server error''"

text \<open>
  Modelled from the spec: the error translator of section 4.4, missing from the sources.
  Bad request is 400, not found is 404, anything else is an internal error, 500, with the
  generic message; the body is an object with the one key \<open>message\<close>.
\<close>

fun translate_error :: "exn \<Rightarrow> envelope" where
  "translate_error (BadRequestError m) = json_envelope 400 (JDict [(''message'', JStr m)])"
| "translate_error (NotFoundError m) = json_envelope 404 (JDict [(''message'', JStr m)])"
| "translate_error (PyException s) = json_envelope 500 (JDict [(''message'', JStr internal_message)])"

subsection \<open>Path matcher\<close>

datatype segment = Literal string | Param string

datatype config_error = EmptyTemplate | EmptySegment | RepeatedParam | DuplicateRoute

text \<open>Splitting a string at every occurrence of a delimiter, as \<^verbatim>\<open>str.split\<close> does.\<close>

fun split_on :: "char \<Rightarrow> string \<Rightarrow> string list" where
  "split_on d [] = [[]]"
| "split_on d (c # cs) =
     (if c = d then [] # split_on d cs
      else (case split_on d cs of [] \<Rightarrow> [[c]] | w # ws \<Rightarrow> (c # w) # ws))"

text \<open>
  Modelled from the spec: the slash-delimited components of a path or of a template
  (section 4.1 and the glossary). The leading slash opens the first component.
\<close>

definition path_segments :: "string \<Rightarrow> string list" where
  "path_segments p = (case split_on CHR ''/'' p of [] # rest \<Rightarrow> rest | segs \<Rightarrow> segs)"

text \<open>A parameter segment is written \<^verbatim>\<open><name>\<close>, as in \<^verbatim>\<open>"/products/<product_id>"\<close>.\<close>

definition parse_segment :: "string \<Rightarrow> segment" where
  "parse_segment c =
     (if 2 \<le> length c \<and> hd c = CHR ''<'' \<and> last c = CHR ''>''
      then Param (butlast (tl c)) else Literal c)"

fun param_names :: "segment list \<Rightarrow> string list" where
  "param_names [] = []"
| "param_names (Literal t # ss) = param_names ss"
| "param_names (Param n # ss) = n # param_names ss"

text \<open>
  Modelled from the spec: \<open>parse\<close> of section 4.1, missing from the sources. It fails on
  an empty template, on an empty segment and on a parameter name declared twice.
\<close>

definition parse_template :: "string \<Rightarrow> config_error + segment list" where
  "parse_template t =
     (if t = [] then Inl EmptyTemplate
      else let comps = path_segments t in
        if list_ex (\<lambda>c. c = []) comps then Inl EmptySegment
        else let segs = map parse_segment comps in
          if distinct (param_names segs) then Inr segs else Inl RepeatedParam)"

text \<open>
  Modelled from the spec: \<open>match\<close> of section 4.1, missing from the sources. The segment
  counts must agree, a literal is compared by equality, a parameter binds the component
  as it is.
\<close>

fun match_path :: "segment list \<Rightarrow> string list \<Rightarrow> (string \<times> string) list option" where
  "match_path [] [] = Some []"
| "match_path (Literal t # ss) (c # cs) = (if t = c then match_path ss cs else None)"
| "match_path (Param n # ss) (c # cs) = map_option ((#) (n, c)) (match_path ss cs)"
| "match_path [] (c # cs) = None"
| "match_path (s # ss) [] = None"

subsection \<open>Router\<close>

text \<open>The three handlers of \<^verbatim>\<open>src/main.py\<close>, by reference.\<close>

datatype handler_ref = ListProducts | GetProduct | CreateProduct

record route =
  route_method :: string
  template :: "segment list"
  handler :: handler_ref

text \<open>
  Modelled from the spec: the invariant of section 3. Two templates collide when they have
  the same number of segments, the same kinds in the same places and equal literals.
\<close>

fun same_shape :: "segment list \<Rightarrow> segment list \<Rightarrow> bool" where
  "same_shape [] [] = True"
| "same_shape (Literal a # xs) (Literal b # ys) = (a = b \<and> same_shape xs ys)"
| "same_shape (Param a # xs) (Param b # ys) = same_shape xs ys"
| "same_shape (Literal a # xs) (Param b # ys) = False"
| "same_shape (Param a # xs) (Literal b # ys) = False"
| "same_shape [] (y # ys) = False"
| "same_shape (x # xs) [] = False"

definition collides :: "string \<Rightarrow> segment list \<Rightarrow> route \<Rightarrow> bool" where
  "collides m segs r = (route_method r = m \<and> same_shape (template r) segs)"

text \<open>
  Modelled from the spec: \<open>register\<close> of section 4.2, missing from the sources. It parses
  the template, rejects a duplicate and appends to the table.
\<close>

definition register :: "string \<Rightarrow> string \<Rightarrow> handler_ref \<Rightarrow> route list \<Rightarrow> config_error + route list" where
  "register m t h tbl =
     (case parse_template t of
        Inl e \<Rightarrow> Inl e
      | Inr segs \<Rightarrow>
          if list_ex (collides m segs) tbl then Inl DuplicateRoute
          else Inr (tbl @ [\<lparr>route_method = m, template = segs, handler = h\<rparr>]))"

text \<open>Modelled from the spec: the message of the router's own not-found error; the
  specification fixes no wording.\<close>

definition not_found_message :: string where
  "not_found_message = ''Not found''"

text \<open>
  Modelled from the spec: \<open>resolve\<close> of section 4.2, missing from the sources. The table is
  searched for a route of the request's method whose template matches the path; no such
  route is a not-found error, whatever the other methods would have matched.
\<close>

fun resolve :: "string \<Rightarrow> string \<Rightarrow> route list \<Rightarrow> exn + (handler_ref \<times> (string \<times> string) list)" where
  "resolve m p [] = Inl (NotFoundError not_found_message)"
| "resolve m p (r # rs) =
     (if route_method r = m
      then (case match_path (template r) (path_segments p) of
              Some params \<Rightarrow> Inr (handler r, params)
            | None \<Rightarrow> resolve m p rs)
      else resolve m p rs)"

subsection \<open>The application\<close>

text \<open>
  The three decorators of \<^verbatim>\<open>src/main.py\<close>, in the order of the file:
  \<^verbatim>\<open>@app.get("/products")\<close>, \<^verbatim>\<open>@app.get("/products/<product_id>")\<close>,
  \<^verbatim>\<open>@app.post("/products")\<close>.
\<close>

definition app :: "config_error + route list" where
  "app =
     (case register ''GET'' ''/products'' ListProducts [] of
        Inl e \<Rightarrow> Inl e
      | Inr t1 \<Rightarrow>
          (case register ''GET'' ''/products/<product_id>'' GetProduct t1 of
             Inl e \<Rightarrow> Inl e
           | Inr t2 \<Rightarrow> register ''POST'' ''/products'' CreateProduct t2))"

text \<open>
  Modelled from the spec: start-up as section 4.2 describes it. The registrations are made
  once, one after the other, each on the table the one before it left; the first that
  fails ends the start-up with its configuration error.
\<close>

fun register_all :: "(string \<times> string \<times> handler_ref) list \<Rightarrow> route list \<Rightarrow> config_error + route list" where
  "register_all [] tbl = Inr tbl"
| "register_all ((m, t, h) # regs) tbl =
     (case register m t h tbl of
        Inl e \<Rightarrow> Inl e
      | Inr tbl' \<Rightarrow> register_all regs tbl')"

text \<open>
  Calling a handler: \<^verbatim>\<open>get_product\<close> takes the bound path parameter as its argument; a
  call without it is a \<^verbatim>\<open>TypeError\<close>.
\<close>

definition invoke :: "handler_ref \<Rightarrow> (string \<times> string) list \<Rightarrow> entropy \<Rightarrow> event \<Rightarrow> exn + ret" where
  "invoke h params ent ev =
     (case h of
        ListProducts \<Rightarrow> Inr (Payload list_products)
      | GetProduct \<Rightarrow>
          (case map_of params ''product_id'' of
             None \<Rightarrow> Inl (PyException ''get_product() missing 1 required positional argument'')
           | Some product_id \<Rightarrow>
               (case get_product product_id of Inl e \<Rightarrow> Inl e | Inr p \<Rightarrow> Inr (Payload p)))
      | CreateProduct \<Rightarrow> create_product ent ev)"

text \<open>
  Modelled from the spec: the control flow of section 2, missing from the sources:
  resolve, call the handler, then the error translator or the response builder.
\<close>

definition dispatch :: "route list \<Rightarrow> entropy \<Rightarrow> event \<Rightarrow> envelope" where
  "dispatch tbl ent ev =
     (case resolve (httpMethod ev) (path ev) tbl of
        Inl e \<Rightarrow> translate_error e
      | Inr (h, params) \<Rightarrow>
          (case invoke h params ent ev of
             Inl e \<Rightarrow> translate_error e
           | Inr r \<Rightarrow> build_response r))"

text \<open>
  \<^verbatim>\<open>lambda_handler\<close> returns \<^verbatim>\<open>app.resolve(event, context)\<close>. A registration that
  failed at start-up leaves no handler to call.
\<close>

definition lambda_handler :: "entropy \<Rightarrow> event \<Rightarrow> config_error + envelope" where
  "lambda_handler ent ev =
     (case app of Inl e \<Rightarrow> Inl e | Inr tbl \<Rightarrow> Inr (dispatch tbl ent ev))"

definition response_status :: "config_error + envelope \<Rightarrow> nat option" where
  "response_status r = (case r of Inl e \<Rightarrow> None | Inr env \<Rightarrow> Some (statusCode env))"

definition response_body :: "config_error + envelope \<Rightarrow> json option" where
  "response_body r = (case r of Inl e \<Rightarrow> None | Inr env \<Rightarrow> Some (body env))"

text \<open>An entropy source for concrete runs.\<close>

definition zero_entropy :: entropy where
  "zero_entropy n = 0"

text \<open>\<^verbatim>\<open>k in d\<close> for a value that is a dictionary.\<close>

fun has_field :: "json \<Rightarrow> string \<Rightarrow> bool" where
  "has_field (JDict d) k = (map_of d k \<noteq> None)"
| "has_field v k = False"

section \<open>Facts about the model\<close>

subsection \<open>Start-up and routing\<close>

lemma app_table:
  "app = Inr [\<lparr>route_method = ''GET'', template = [Literal ''products''], handler = ListProducts\<rparr>,
              \<lparr>route_method = ''GET'', template = [Literal ''products'', Param ''product_id''], handler = GetProduct\<rparr>,
              \<lparr>route_method = ''POST'', template = [Literal ''products''], handler = CreateProduct\<rparr>]"
  by (simp add: app_def register_def parse_template_def path_segments_def parse_segment_def collides_def)

lemma split_on_absent: "d \<notin> set s \<Longrightarrow> split_on d s = [s]"
  by (induction s) auto

lemma path_segments_products: "path_segments ''/products'' = [''products'']"
  by (simp add: path_segments_def)

lemma path_segments_product_id:
  "CHR ''/'' \<notin> set pid \<Longrightarrow> path_segments (''/products/'' @ pid) = [''products'', pid]"
  by (simp add: path_segments_def split_on_absent)

lemma lambda_handler_dispatch:
  "lambda_handler ent ev =
     Inr (dispatch
       [\<lparr>route_method = ''GET'', template = [Literal ''products''], handler = ListProducts\<rparr>,
        \<lparr>route_method = ''GET'', template = [Literal ''products'', Param ''product_id''], handler = GetProduct\<rparr>,
        \<lparr>route_method = ''POST'', template = [Literal ''products''], handler = CreateProduct\<rparr>] ent ev)"
  by (simp add: lambda_handler_def app_table)

lemma lambda_handler_list:
  assumes "httpMethod ev = ''GET''" and "path ev = ''/products''"
  shows "lambda_handler ent ev = Inr (json_envelope 200 list_products)"
  using assms
  by (simp add: lambda_handler_dispatch dispatch_def path_segments_products invoke_def)

lemma lambda_handler_get:
  assumes "CHR ''/'' \<notin> set pid" and "httpMethod ev = ''GET''" and "path ev = ''/products/'' @ pid"
  shows "lambda_handler ent ev =
           Inr (case get_product pid of Inl e \<Rightarrow> translate_error e | Inr p \<Rightarrow> json_envelope 200 p)"
proof -
  have segs: "path_segments (path ev) = [''products'', pid]"
    unfolding assms(3) by (rule path_segments_product_id [OF assms(1)])
  show ?thesis
    using assms(2)
    by (simp add: lambda_handler_dispatch dispatch_def segs invoke_def split: sum.splits)
qed

lemma lambda_handler_post:
  assumes "httpMethod ev = ''POST''" and "path ev = ''/products''"
  shows "lambda_handler ent ev =
           Inr (case create_product ent ev of Inl e \<Rightarrow> translate_error e | Inr r \<Rightarrow> build_response r)"
  using assms
  by (simp add: lambda_handler_dispatch dispatch_def path_segments_products invoke_def)

subsection \<open>The generated identifier\<close>

lemma length_bytes_hex: "length (bytes_hex bs) = 2 * length bs"
  by (induction bs) (simp_all add: bytes_hex_def hex_byte_def)

lemma str_nat_8: "str_nat 8 = ''8''"
  by (simp add: str_nat.simps digit_char_def)

lemma new_product_id_const: "new_product_id ent = ''prod_8''"
  by (simp add: new_product_id_def length_bytes_hex os_urandom_def str_nat_8)

section \<open>The listing and lookup endpoints\<close>

text \<open>
  C6. \<^verbatim>\<open>GET /products\<close> always returns status 200 with a body under whose key
  \<open>products\<close> lies a sequence of exactly three objects, each with the fields \<open>id\<close>,
  \<open>name\<close> and \<open>price\<close>.
\<close>

theorem list_products_response:
  assumes "httpMethod ev = ''GET''" and "path ev = ''/products''"
  shows "response_status (lambda_handler ent ev) = Some 200 \<and>
         (\<exists>ps. response_body (lambda_handler ent ev) = Some (JDict [(''products'', JList ps)]) \<and>
               length ps = 3 \<and>
               list_all (\<lambda>p. has_field p ''id'' \<and> has_field p ''name'' \<and> has_field p ''price'') ps)"
  by (simp add: lambda_handler_list [OF assms] response_status_def response_body_def
      json_envelope_def list_products_def)

theorem list_products_response_witness:
  "response_status (lambda_handler zero_entropy
      \<lparr>httpMethod = ''GET'', path = ''/products'', json_body = Inr JNone\<rparr>) = Some 200"
  using list_products_response [of "\<lparr>httpMethod = ''GET'', path = ''/products'', json_body = Inr JNone\<rparr>" zero_entropy]
  by simp

text \<open>
  C5. For every product id, \<^verbatim>\<open>GET /products/{product_id}\<close> returns status 200 with the
  stored product when the id is \<open>prod1\<close>, \<open>prod2\<close> or \<open>prod3\<close> (for \<open>prod1\<close> exactly the
  object with id \<open>prod1\<close>, name \<open>Laptop\<close> and price 1200), and otherwise status 404 with a
  message that quotes the id. A product id is one component of the path: it holds no
  slash.
\<close>

theorem get_product_response:
  assumes "CHR ''/'' \<notin> set product_id"
    and "httpMethod ev = ''GET''" and "path ev = ''/products/'' @ product_id"
  shows "lambda_handler ent ev =
           Inr (if product_id = ''prod1'' then
                  json_envelope 200 (JDict [(''id'', JStr ''prod1''), (''name'', JStr ''Laptop''), (''price'', JInt 1200)])
                else if product_id = ''prod2'' then
                  json_envelope 200 (JDict [(''id'', JStr ''prod2''), (''name'', JStr ''Mouse''), (''price'', JInt 25)])
                else if product_id = ''prod3'' then
                  json_envelope 200 (JDict [(''id'', JStr ''prod3''), (''name'', JStr ''Keyboard''), (''price'', JInt 75)])
                else
                  json_envelope 404 (JDict [(''message'',
                    JStr (''Product with ID '' @ [CHR 0x27] @ product_id @ [CHR 0x27] @ '' not found.''))]))"
  by (simp add: lambda_handler_get [OF assms] get_product_def dict_get_def products_db_def)

theorem get_product_response_witness:
  "lambda_handler zero_entropy \<lparr>httpMethod = ''GET'', path = ''/products/prod1'', json_body = Inr JNone\<rparr> =
     Inr (json_envelope 200 (JDict [(''id'', JStr ''prod1''), (''name'', JStr ''Laptop''), (''price'', JInt 1200)])) \<and>
   lambda_handler zero_entropy \<lparr>httpMethod = ''GET'', path = ''/products/doesnotexist'', json_body = Inr JNone\<rparr> =
     Inr (json_envelope 404 (JDict [(''message'', JStr (''Product with ID '' @ [CHR 0x27] @ ''doesnotexist'' @ [CHR 0x27] @ '' not found.''))]))"
  using get_product_response [of "''prod1''" "\<lparr>httpMethod = ''GET'', path = ''/products/prod1'', json_body = Inr JNone\<rparr>" zero_entropy]
    get_product_response [of "''doesnotexist''" "\<lparr>httpMethod = ''GET'', path = ''/products/doesnotexist'', json_body = Inr JNone\<rparr>" zero_entropy]
  by simp

section \<open>The creation endpoint\<close>

subsection \<open>What the handler returns\<close>

lemma create_product_dict:
  assumes "json_body ev = Inr (JDict d)"
  shows "create_product ent ev =
           (if truthy (dict_get d ''name'') \<and> isinstance_int_float (dict_get d ''price'')
            then Inr (PayloadStatus
                   (JDict [(''message'', JStr ''Product created successfully''),
                           (''product'', JDict [(''id'', JStr (new_product_id ent)),
                                                 (''name'', dict_get d ''name''),
                                                 (''price'', dict_get d ''price'')])]) 201)
            else Inl (BadRequestError invalid_product_data))"
  by (simp add: create_product_def create_product_try_def assms)

lemma create_product_not_dict:
  assumes "json_body ev = Inr v" and "\<forall>d. v \<noteq> JDict d"
  shows "create_product ent ev =
           Inl (BadRequestError (''An unexpected error occurred: '' @ [CHR 0x27] @ type_name v @ [CHR 0x27] @
                  '' object has no attribute '' @ [CHR 0x27] @ ''get'' @ [CHR 0x27]))"
  using assms by (cases v) (simp_all add: create_product_def create_product_try_def)

lemma create_product_raised:
  assumes "create_product_try ent ev = Inl e"
  shows "create_product ent ev =
           Inl (BadRequestError (case e of BadRequestError m \<Rightarrow> m
                                 | NotFoundError m \<Rightarrow> ''An unexpected error occurred: '' @ m
                                 | PyException s \<Rightarrow> ''An unexpected error occurred: '' @ s))"
  using assms by (cases e) (simp_all add: create_product_def)

lemma create_product_try_json_body:
  "json_body ev = Inl e \<Longrightarrow> create_product_try ent ev = Inl e"
  by (simp add: create_product_try_def)

lemma create_product_cases:
  "(\<exists>m. create_product ent ev = Inl (BadRequestError m)) \<or>
   (\<exists>p. create_product ent ev = Inr (PayloadStatus p 201))"
  by (auto simp: create_product_def create_product_try_def Let_def split: sum.splits exn.splits)

lemma get_product_cases:
  "(\<exists>m. get_product pid = Inl (NotFoundError m)) \<or> (\<exists>p. get_product pid = Inr p)"
  by (simp add: get_product_def Let_def)

subsection \<open>The status codes of the application\<close>

lemma match_path_product_id:
  "match_path [Literal ''products'', Param ''product_id''] cs = Some ps \<Longrightarrow>
     \<exists>c. ps = [(''product_id'', c)]"
proof (cases cs)
  case Nil
  assume "match_path [Literal ''products'', Param ''product_id''] cs = Some ps"
  with Nil show ?thesis by simp
next
  case (Cons a as)
  assume m: "match_path [Literal ''products'', Param ''product_id''] cs = Some ps"
  show ?thesis
  proof (cases as)
    case Nil
    with m Cons show ?thesis by (simp split: if_splits)
  next
    case (Cons b bs)
    with m \<open>cs = a # as\<close> show ?thesis
      by (cases bs) (auto split: if_splits)
  qed
qed

lemma invoke_status:
  assumes "h = GetProduct \<longrightarrow> map_of params ''product_id'' \<noteq> None"
  shows "statusCode (case invoke h params ent ev of Inl e \<Rightarrow> translate_error e | Inr r \<Rightarrow> build_response r)
           \<in> {200, 201, 400, 404}"
proof (cases h)
  case ListProducts
  then show ?thesis by (simp add: invoke_def json_envelope_def)
next
  case GetProduct
  with assms obtain pid where "map_of params ''product_id'' = Some pid" by auto
  with GetProduct get_product_cases [of pid] show ?thesis
    by (auto simp: invoke_def json_envelope_def)
next
  case CreateProduct
  with create_product_cases [of ent ev] show ?thesis
    by (auto simp: invoke_def json_envelope_def)
qed

lemma resolve_app_handler:
  assumes "resolve m p
       [\<lparr>route_method = ''GET'', template = [Literal ''products''], handler = ListProducts\<rparr>,
        \<lparr>route_method = ''GET'', template = [Literal ''products'', Param ''product_id''], handler = GetProduct\<rparr>,
        \<lparr>route_method = ''POST'', template = [Literal ''products''], handler = CreateProduct\<rparr>] = Inr (h, params)"
  shows "h = GetProduct \<longrightarrow> map_of params ''product_id'' \<noteq> None"
  using assms
  by (auto split: if_splits option.splits dest: match_path_product_id)

lemma resolve_failure:
  "resolve m p tbl = Inl e \<Longrightarrow> e = NotFoundError not_found_message"
  by (induction tbl) (auto split: if_splits option.splits)

lemma dispatch_app_status:
  "statusCode (dispatch
       [\<lparr>route_method = ''GET'', template = [Literal ''products''], handler = ListProducts\<rparr>,
        \<lparr>route_method = ''GET'', template = [Literal ''products'', Param ''product_id''], handler = GetProduct\<rparr>,
        \<lparr>route_method = ''POST'', template = [Literal ''products''], handler = CreateProduct\<rparr>] ent ev)
     \<in> {200, 201, 400, 404}"
  (is "statusCode (dispatch ?tbl ent ev) \<in> _")
proof (cases "resolve (httpMethod ev) (path ev) ?tbl")
  case (Inl e)
  from resolve_failure [OF Inl] Inl show ?thesis
    by (simp add: dispatch_def json_envelope_def)
next
  case (Inr hp)
  obtain h params where hp: "hp = (h, params)" by (cases hp)
  from Inr hp have r: "resolve (httpMethod ev) (path ev) ?tbl = Inr (h, params)" by simp
  from invoke_status [OF resolve_app_handler [OF r], of ent ev] show ?thesis
    by (simp only: dispatch_def r sum.case prod.case)
qed

lemma lambda_handler_status:
  "response_status (lambda_handler ent ev) \<in> {Some 200, Some 201, Some 400, Some 404}"
  using dispatch_app_status [of ent ev]
  by (simp add: lambda_handler_dispatch response_status_def)

subsection \<open>The identifier of a created product\<close>

text \<open>
  C2. A valid \<^verbatim>\<open>POST /products\<close>, such as name \<open>Monitor\<close> and price 300, is answered with
  status 201 and a product of the submitted name and price. Its identifier is meant to be
  fresh; the handler formats the length of the hexadecimal text of four random bytes, and
  that length is 8 whatever the bytes are, so every created product gets the identifier
  \<open>prod_8\<close>.
\<close>

theorem create_product_id_not_fresh:
  "lambda_handler ent
     \<lparr>httpMethod = ''POST'', path = ''/products'',
      json_body = Inr (JDict [(''name'', JStr ''Monitor''), (''price'', JInt 300)])\<rparr> =
   Inr (json_envelope 201
     (JDict [(''message'', JStr ''Product created successfully''),
             (''product'', JDict [(''id'', JStr ''prod_8''),
                                   (''name'', JStr ''Monitor''),
                                   (''price'', JInt 300)])])) \<and>
   new_product_id ent = new_product_id ent'"
  by (simp add: lambda_handler_post create_product_dict dict_get_def new_product_id_const)

subsection \<open>Validation of the body\<close>

text \<open>
  C10. A body whose \<open>name\<close> is a non-empty string and whose \<open>price\<close> is a JSON boolean
  passes the price check, because \<^verbatim>\<open>bool\<close> is a subclass of \<^verbatim>\<open>int\<close>: the answer is
  status 201 and the created product carries the boolean as its price.
\<close>

theorem create_product_accepts_bool:
  assumes "httpMethod ev = ''POST''" and "path ev = ''/products''"
    and "json_body ev = Inr (JDict d)"
    and "dict_get d ''name'' = JStr s" and "s \<noteq> []"
    and "dict_get d ''price'' = JBool b"
  shows "isinstance_int_float (JBool b) \<and>
         lambda_handler ent ev =
           Inr (json_envelope 201
             (JDict [(''message'', JStr ''Product created successfully''),
                     (''product'', JDict [(''id'', JStr (new_product_id ent)),
                                           (''name'', JStr s),
                                           (''price'', JBool b)])]))"
  using assms(4-6)
  by (simp add: lambda_handler_post [OF assms(1,2)] create_product_dict [OF assms(3)])

theorem create_product_accepts_bool_witness:
  "lambda_handler zero_entropy
     \<lparr>httpMethod = ''POST'', path = ''/products'',
      json_body = Inr (JDict [(''name'', JStr ''Monitor''), (''price'', JBool True)])\<rparr> =
   Inr (json_envelope 201
     (JDict [(''message'', JStr ''Product created successfully''),
             (''product'', JDict [(''id'', JStr (new_product_id zero_entropy)),
                                   (''name'', JStr ''Monitor''),
                                   (''price'', JBool True)])]))"
  using create_product_accepts_bool
    [of "\<lparr>httpMethod = ''POST'', path = ''/products'',
          json_body = Inr (JDict [(''name'', JStr ''Monitor''), (''price'', JBool True)])\<rparr>"
        "[(''name'', JStr ''Monitor''), (''price'', JBool True)]" "''Monitor''" True zero_entropy]
  by (simp add: dict_get_def)

text \<open>
  C3, as the handler decides it. For a body that is a JSON object, the answer is status
  400 with the fixed message \<open>invalid_product_data\<close> when the value of \<open>name\<close> is absent
  or false in Python's sense (null, false, zero, an empty string, list or object) or the
  value of \<open>price\<close> is absent or neither an integer, a float nor a boolean; otherwise,
  and so for every non-empty string name with a numeric price, it is status 201 with the
  message and the product. A body that is not an object is answered with status 400 and
  the text of the attribute error.
\<close>

theorem create_product_validation:
  assumes "httpMethod ev = ''POST''" and "path ev = ''/products''" and "json_body ev = Inr v"
  shows "lambda_handler ent ev =
           Inr (case v of
                  JDict d \<Rightarrow>
                    if truthy (dict_get d ''name'') \<and> isinstance_int_float (dict_get d ''price'')
                    then json_envelope 201
                      (JDict [(''message'', JStr ''Product created successfully''),
                              (''product'', JDict [(''id'', JStr (new_product_id ent)),
                                                    (''name'', dict_get d ''name''),
                                                    (''price'', dict_get d ''price'')])])
                    else json_envelope 400 (JDict [(''message'', JStr invalid_product_data)])
                | _ \<Rightarrow>
                    json_envelope 400 (JDict [(''message'',
                      JStr (''An unexpected error occurred: '' @ [CHR 0x27] @ type_name v @ [CHR 0x27] @
                            '' object has no attribute '' @ [CHR 0x27] @ ''get'' @ [CHR 0x27]))]))"
proof (cases "\<exists>d. v = JDict d")
  case True
  then obtain d where v: "v = JDict d" by blast
  show ?thesis
    using create_product_dict [of ev d ent] assms(3)
    by (simp add: lambda_handler_post [OF assms(1,2)] v)
next
  case False
  then have nd: "\<forall>d. v \<noteq> JDict d" by blast
  show ?thesis
    using create_product_not_dict [OF assms(3) nd, of ent] nd
    by (cases v) (simp_all add: lambda_handler_post [OF assms(1,2)])
qed

theorem create_product_validation_witness:
  "lambda_handler zero_entropy
     \<lparr>httpMethod = ''POST'', path = ''/products'', json_body = Inr (JDict [(''price'', JInt 300)])\<rparr> =
   Inr (json_envelope 400 (JDict [(''message'', JStr invalid_product_data)]))"
  using create_product_validation
    [of "\<lparr>httpMethod = ''POST'', path = ''/products'', json_body = Inr (JDict [(''price'', JInt 300)])\<rparr>"
        "JDict [(''price'', JInt 300)]" zero_entropy]
  by (simp add: dict_get_def)

text \<open>
  A name that is not a string at all is accepted: the body with name 5 and price 3 has no
  non-empty string under \<open>name\<close> and is answered with status 201, not 400.
\<close>

theorem create_product_name_counterexample:
  "response_status (lambda_handler zero_entropy
     \<lparr>httpMethod = ''POST'', path = ''/products'',
      json_body = Inr (JDict [(''name'', JInt 5), (''price'', JInt 3)])\<rparr>) = Some 201 \<and>
   response_status (lambda_handler zero_entropy
     \<lparr>httpMethod = ''POST'', path = ''/products'',
      json_body = Inr (JDict [(''name'', JInt 5), (''price'', JInt 3)])\<rparr>) \<noteq> Some 400"
  by (simp add: lambda_handler_post create_product_dict dict_get_def response_status_def json_envelope_def)

subsection \<open>Failures inside the handler\<close>

text \<open>
  C4. When the body of a \<^verbatim>\<open>POST /products\<close> cannot be deserialized, so that reading
  \<open>json_body\<close> raises, the answer has status 400, never 500, and its message carries the
  text of the failure.
\<close>

theorem create_product_unparsable_body:
  assumes "httpMethod ev = ''POST''" and "path ev = ''/products''" and "json_body ev = Inl e"
  shows "response_status (lambda_handler ent ev) = Some 400 \<and>
         response_status (lambda_handler ent ev) \<noteq> Some 500 \<and>
         response_body (lambda_handler ent ev) =
           Some (JDict [(''message'',
             JStr (case e of BadRequestError m \<Rightarrow> m
                   | NotFoundError m \<Rightarrow> ''An unexpected error occurred: '' @ m
                   | PyException s \<Rightarrow> ''An unexpected error occurred: '' @ s))])"
  by (simp add: lambda_handler_post [OF assms(1,2)]
      create_product_raised [OF create_product_try_json_body [OF assms(3)]]
      response_status_def response_body_def json_envelope_def)

theorem create_product_unparsable_body_witness:
  "response_status (lambda_handler zero_entropy
     \<lparr>httpMethod = ''POST'', path = ''/products'',
      json_body = Inl (PyException ''Expecting value: line 1 column 1 (char 0)'')\<rparr>) = Some 400"
  using create_product_unparsable_body
    [of "\<lparr>httpMethod = ''POST'', path = ''/products'',
          json_body = Inl (PyException ''Expecting value: line 1 column 1 (char 0)'')\<rparr>"
        "PyException ''Expecting value: line 1 column 1 (char 0)''" zero_entropy]
  by simp

text \<open>
  C1, as the handler decides it. An exception raised inside the \<^verbatim>\<open>try\<close> block of
  \<^verbatim>\<open>create_product\<close> that is not a \<^verbatim>\<open>BadRequestError\<close> is caught by the handler and
  raised again as a \<^verbatim>\<open>BadRequestError\<close>: the answer has status 400 and its message is
  \<open>An unexpected error occurred:\<close> followed by the text of the exception. No failure other
  than the two service errors leaves a handler, so no request is answered with status 500.
\<close>

theorem create_product_unexpected_error:
  assumes "httpMethod ev = ''POST''" and "path ev = ''/products''"
    and "create_product_try ent ev = Inl e" and "\<forall>m. e \<noteq> BadRequestError m"
  shows "lambda_handler ent ev =
           Inr (json_envelope 400
             (JDict [(''message'', JStr (''An unexpected error occurred: '' @ str_exn e))])) \<and>
         response_status (lambda_handler ent' ev') \<noteq> Some 500"
proof
  show "lambda_handler ent ev =
           Inr (json_envelope 400
             (JDict [(''message'', JStr (''An unexpected error occurred: '' @ str_exn e))]))"
    using assms(4)
    by (cases e)
       (simp_all add: lambda_handler_post [OF assms(1,2)] create_product_raised [OF assms(3)])
next
  from lambda_handler_status [of ent' ev']
  show "response_status (lambda_handler ent' ev') \<noteq> Some 500" by auto
qed

theorem create_product_unexpected_error_witness:
  "lambda_handler zero_entropy
     \<lparr>httpMethod = ''POST'', path = ''/products'',
      json_body = Inl (PyException ''Expecting value: line 1 column 1 (char 0)'')\<rparr> =
   Inr (json_envelope 400
     (JDict [(''message'', JStr ''An unexpected error occurred: Expecting value: line 1 column 1 (char 0)'')]))"
  using create_product_unexpected_error
    [of "\<lparr>httpMethod = ''POST'', path = ''/products'',
          json_body = Inl (PyException ''Expecting value: line 1 column 1 (char 0)'')\<rparr>"
        zero_entropy "PyException ''Expecting value: line 1 column 1 (char 0)''"]
  by (simp add: create_product_try_def)

text \<open>
  The body \<^verbatim>\<open>[]\<close> makes \<^verbatim>\<open>body.get\<close> raise an attribute error inside the handler. The
  answer is status 400, not 500, and the text of the error is in the message.
\<close>

theorem create_product_leak_counterexample:
  "lambda_handler zero_entropy
     \<lparr>httpMethod = ''POST'', path = ''/products'', json_body = Inr (JList [])\<rparr> =
   Inr (json_envelope 400
     (JDict [(''message'', JStr (''An unexpected error occurred: '' @ [CHR 0x27] @ ''list'' @ [CHR 0x27] @
        '' object has no attribute '' @ [CHR 0x27] @ ''get'' @ [CHR 0x27]))])) \<and>
   response_status (lambda_handler zero_entropy
     \<lparr>httpMethod = ''POST'', path = ''/products'', json_body = Inr (JList [])\<rparr>) \<noteq> Some 500"
  by (simp add: lambda_handler_post create_product_def create_product_try_def response_status_def
      json_envelope_def)

section \<open>The router\<close>

lemma resolve_unmatched:
  "\<not> list_ex (\<lambda>r. route_method r = m \<and> match_path (template r) (path_segments p) \<noteq> None) tbl \<Longrightarrow>
     resolve m p tbl = Inl (NotFoundError not_found_message)"
  by (induction tbl) (auto split: option.splits)

lemma same_shape_refl: "same_shape segs segs"
proof (induction segs)
  case Nil
  show ?case by simp
next
  case (Cons s segs)
  then show ?case by (cases s) simp_all
qed

text \<open>
  C7. A request for which no registered route has both its method and a template matching
  its path is resolved to the not-found error and answered with status 404, also when
  the path matches the template of a route of another method; no request is answered
  with status 405.
\<close>

theorem unmatched_request_not_found:
  assumes "app = Inr tbl"
  shows "response_status (lambda_handler ent ev) \<noteq> Some 405 \<and>
         (\<not> list_ex (\<lambda>r. route_method r = httpMethod ev \<and>
                           match_path (template r) (path_segments (path ev)) \<noteq> None) tbl \<longrightarrow>
            resolve (httpMethod ev) (path ev) tbl = Inl (NotFoundError not_found_message) \<and>
            response_status (lambda_handler ent ev) = Some 404)"
proof
  from lambda_handler_status [of ent ev]
  show "response_status (lambda_handler ent ev) \<noteq> Some 405" by auto
next
  show "\<not> list_ex (\<lambda>r. route_method r = httpMethod ev \<and>
                           match_path (template r) (path_segments (path ev)) \<noteq> None) tbl \<longrightarrow>
            resolve (httpMethod ev) (path ev) tbl = Inl (NotFoundError not_found_message) \<and>
            response_status (lambda_handler ent ev) = Some 404"
  proof
    assume "\<not> list_ex (\<lambda>r. route_method r = httpMethod ev \<and>
                           match_path (template r) (path_segments (path ev)) \<noteq> None) tbl"
    then have r: "resolve (httpMethod ev) (path ev) tbl = Inl (NotFoundError not_found_message)"
      by (rule resolve_unmatched)
    then show "resolve (httpMethod ev) (path ev) tbl = Inl (NotFoundError not_found_message) \<and>
            response_status (lambda_handler ent ev) = Some 404"
      by (simp add: lambda_handler_def assms dispatch_def response_status_def json_envelope_def)
  qed
qed

theorem unmatched_request_not_found_witness:
  "response_status (lambda_handler zero_entropy
     \<lparr>httpMethod = ''DELETE'', path = ''/products'', json_body = Inr JNone\<rparr>) = Some 404 \<and>
   response_status (lambda_handler zero_entropy
     \<lparr>httpMethod = ''POST'', path = ''/products/prod1'', json_body = Inr JNone\<rparr>) = Some 404"
  using unmatched_request_not_found [OF app_table,
      of zero_entropy "\<lparr>httpMethod = ''DELETE'', path = ''/products'', json_body = Inr JNone\<rparr>"]
    unmatched_request_not_found [OF app_table,
      of zero_entropy "\<lparr>httpMethod = ''POST'', path = ''/products/prod1'', json_body = Inr JNone\<rparr>"]
  by (simp add: path_segments_def)

lemma app_register_all:
  "app = register_all [(''GET'', ''/products'', ListProducts),
                       (''GET'', ''/products/<product_id>'', GetProduct),
                       (''POST'', ''/products'', CreateProduct)] []"
  by (simp add: app_def split: sum.splits)

lemma register_success:
  assumes "register m t h tbl = Inr tbl'"
  shows "\<exists>segs. parse_template t = Inr segs \<and>
                tbl' = tbl @ [\<lparr>route_method = m, template = segs, handler = h\<rparr>]"
  using assms by (auto simp: register_def split: sum.splits if_splits)

lemma register_keeps:
  assumes "register m t h tbl = Inr tbl'" and "list_ex P tbl"
  shows "list_ex P tbl'"
proof -
  from register_success [OF assms(1)] obtain segs
    where "tbl' = tbl @ [\<lparr>route_method = m, template = segs, handler = h\<rparr>]" by blast
  with assms(2) show ?thesis by simp
qed

lemma register_all_keeps:
  "register_all regs tbl = Inr tbl' \<Longrightarrow> list_ex P tbl \<Longrightarrow> list_ex P tbl'"
proof (induction regs arbitrary: tbl)
  case Nil
  then show ?case by simp
next
  case (Cons reg regs)
  obtain m t h where reg: "reg = (m, t, h)" by (cases reg)
  from Cons.prems(1) reg obtain tbl1 where r: "register m t h tbl = Inr tbl1"
    and rest: "register_all regs tbl1 = Inr tbl'"
    by (auto split: sum.splits)
  from register_keeps [OF r Cons.prems(2)] have "list_ex P tbl1" .
  from Cons.IH [OF rest this] show ?case .
qed

lemma register_all_append:
  "register_all (xs @ ys) tbl =
     (case register_all xs tbl of Inl e \<Rightarrow> Inl e | Inr tbl' \<Rightarrow> register_all ys tbl')"
proof (induction xs arbitrary: tbl)
  case Nil
  show ?case by simp
next
  case (Cons reg xs)
  obtain m t h where reg: "reg = (m, t, h)" by (cases reg)
  show ?case by (simp add: reg Cons.IH split: sum.splits)
qed

lemma register_after_registered:
  assumes "register m t h tbl = Inr tbl1" and "register_all regs tbl1 = Inr tbl2"
  shows "register m t h' tbl2 = Inl DuplicateRoute"
proof -
  from register_success [OF assms(1)] obtain segs where p: "parse_template t = Inr segs"
    and t1: "tbl1 = tbl @ [\<lparr>route_method = m, template = segs, handler = h\<rparr>]" by blast
  have "list_ex (collides m segs) tbl1"
    by (simp add: t1 collides_def same_shape_refl)
  from register_all_keeps [OF assms(2) this] have "list_ex (collides m segs) tbl2" .
  then show ?thesis by (simp add: register_def p)
qed

lemma register_all_twice:
  "\<exists>e. register_all (regs1 @ (m, t, h) # regs2 @ (m, t, h') # regs3) tbl = Inl e"
proof (cases "register_all regs1 tbl")
  case (Inl e)
  then show ?thesis by (simp add: register_all_append)
next
  case r1: (Inr tbl0)
  show ?thesis
  proof (cases "register m t h tbl0")
    case (Inl e)
    with r1 show ?thesis by (simp add: register_all_append)
  next
    case r2: (Inr tbl1)
    show ?thesis
    proof (cases "register_all regs2 tbl1")
      case (Inl e)
      with r1 r2 show ?thesis by (simp add: register_all_append)
    next
      case r3: (Inr tbl2)
      from register_after_registered [OF r2 r3]
      have "register m t h' tbl2 = Inl DuplicateRoute" .
      with r1 r2 r3 show ?thesis by (simp add: register_all_append)
    qed
  qed
qed

lemma register_colliding:
  assumes "list_ex (\<lambda>r. route_method r = m \<and> parse_template t = Inr (template r)) tbl"
  shows "register m t h tbl = Inl DuplicateRoute"
proof -
  from assms obtain r where r: "r \<in> set tbl" "route_method r = m"
    and p: "parse_template t = Inr (template r)"
    by (auto simp: list_ex_iff)
  from r have "list_ex (collides m (template r)) tbl"
    by (auto simp: list_ex_iff collides_def same_shape_refl)
  then show ?thesis by (simp add: register_def p)
qed

text \<open>
  C8. Registering the same method and template a second time at start-up fails with a
  configuration error at registration. A table that holds a route registered for a method
  and a template refuses the pair as a duplicate; once a pair is registered, it is refused
  on every later table, however many other registrations came between and whatever
  handler comes with it; and a start-up that lists the same pair twice, at any two
  places, ends in a configuration error. A failure returns no table, so the earlier
  registration is neither overwritten nor shadowed.
\<close>

theorem register_twice_fails:
  "(list_ex (\<lambda>r. route_method r = m \<and> parse_template t = Inr (template r)) tbl \<longrightarrow>
      register m t h' tbl = Inl DuplicateRoute) \<and>
   (register m t h tbl = Inr tbl1 \<longrightarrow> register_all regs tbl1 = Inr tbl2 \<longrightarrow>
      register m t h' tbl2 = Inl DuplicateRoute) \<and>
   (\<exists>e. register_all (regs1 @ (m, t, h) # regs2 @ (m, t, h') # regs3) tbl0 = Inl e)"
proof (intro conjI impI)
  assume "list_ex (\<lambda>r. route_method r = m \<and> parse_template t = Inr (template r)) tbl"
  then show "register m t h' tbl = Inl DuplicateRoute"
    by (rule register_colliding)
next
  assume "register m t h tbl = Inr tbl1" and "register_all regs tbl1 = Inr tbl2"
  then show "register m t h' tbl2 = Inl DuplicateRoute"
    by (rule register_after_registered)
next
  show "\<exists>e. register_all (regs1 @ (m, t, h) # regs2 @ (m, t, h') # regs3) tbl0 = Inl e"
    by (rule register_all_twice)
qed

theorem register_twice_fails_witness:
  "app = Inr [\<lparr>route_method = ''GET'', template = [Literal ''products''], handler = ListProducts\<rparr>,
              \<lparr>route_method = ''GET'', template = [Literal ''products'', Param ''product_id''], handler = GetProduct\<rparr>,
              \<lparr>route_method = ''POST'', template = [Literal ''products''], handler = CreateProduct\<rparr>] \<and>
   register ''GET'' ''/products'' CreateProduct
     [\<lparr>route_method = ''GET'', template = [Literal ''products''], handler = ListProducts\<rparr>,
      \<lparr>route_method = ''GET'', template = [Literal ''products'', Param ''product_id''], handler = GetProduct\<rparr>,
      \<lparr>route_method = ''POST'', template = [Literal ''products''], handler = CreateProduct\<rparr>] =
     Inl DuplicateRoute"
proof -
  have r: "register ''GET'' ''/products'' ListProducts [] =
     Inr [\<lparr>route_method = ''GET'', template = [Literal ''products''], handler = ListProducts\<rparr>]"
    by (simp add: register_def parse_template_def path_segments_def parse_segment_def)
  have rest: "register_all [(''GET'', ''/products/<product_id>'', GetProduct),
                            (''POST'', ''/products'', CreateProduct)]
       [\<lparr>route_method = ''GET'', template = [Literal ''products''], handler = ListProducts\<rparr>] =
     Inr [\<lparr>route_method = ''GET'', template = [Literal ''products''], handler = ListProducts\<rparr>,
          \<lparr>route_method = ''GET'', template = [Literal ''products'', Param ''product_id''], handler = GetProduct\<rparr>,
          \<lparr>route_method = ''POST'', template = [Literal ''products''], handler = CreateProduct\<rparr>]"
    by (simp add: register_def parse_template_def path_segments_def parse_segment_def collides_def)
  from register_twice_fails
    [of "''GET''" "''/products''" "[]" CreateProduct ListProducts
        "[\<lparr>route_method = ''GET'', template = [Literal ''products''], handler = ListProducts\<rparr>]"
        "[(''GET'', ''/products/<product_id>'', GetProduct), (''POST'', ''/products'', CreateProduct)]"
        "[\<lparr>route_method = ''GET'', template = [Literal ''products''], handler = ListProducts\<rparr>,
          \<lparr>route_method = ''GET'', template = [Literal ''products'', Param ''product_id''], handler = GetProduct\<rparr>,
          \<lparr>route_method = ''POST'', template = [Literal ''products''], handler = CreateProduct\<rparr>]"]
    r rest app_table
  show ?thesis by blast
qed

end
